theory Spec2Isabelle
  imports Main "HOL-Library.AList" "HOL-Library.Sublist"
begin

section \<open>Python values, dictionaries and exceptions\<close>



datatype error =
    JSONDecodeError
  | AttributeError
  | TypeError
  | ValueError string
  | ArgumentError
  | CertificateException
  | OtherError string


text \<open>The same test on an \<^verbatim>\<open>Optional[str]\<close>: \<^verbatim>\<open>None\<close> and the empty string are false.\<close>

fun truthy_str :: "string option \<Rightarrow> bool" where
  "truthy_str None = False"
| "truthy_str (Some s) = (s \<noteq> [])"



section \<open>Strings\<close>

text \<open>
  \<^verbatim>\<open>str.upper()\<close>. On a string of ASCII characters (every byte below 128) it maps the
  letters \<^verbatim>\<open>a\<close> to \<^verbatim>\<open>z\<close> to \<^verbatim>\<open>A\<close> to \<^verbatim>\<open>Z\<close> and keeps every other character. On a
  string with a character outside ASCII the result follows the case mappings of Unicode,
  which can produce ASCII letters (the dotless i becomes \<^verbatim>\<open>I\<close>, the long s becomes
  \<^verbatim>\<open>S\<close>); these mappings are the parameter \<open>unicode_upper\<close>, Python's own function on
  such strings.
\<close>

definition upper_char :: "char \<Rightarrow> char" where
  "upper_char c =
     (case map_of (zip ''abcdefghijklmnopqrstuvwxyz'' ''ABCDEFGHIJKLMNOPQRSTUVWXYZ'') c of
        Some u \<Rightarrow> u
      | None \<Rightarrow> c)"

definition is_ascii :: "string \<Rightarrow> bool" where
  "is_ascii s = list_all (\<lambda>c. \<not> digit7 c) s"

definition upper :: "(string \<Rightarrow> string) \<Rightarrow> string \<Rightarrow> string" where
  "upper unicode_upper s = (if is_ascii s then map upper_char s else unicode_upper s)"

text \<open>\<^verbatim>\<open>s.split(sep)\<close> for a separator of one character: never the empty list.\<close>

fun split_str :: "char \<Rightarrow> string \<Rightarrow> string list" where
  "split_str sep [] = [[]]"
| "split_str sep (c # cs) =
     (if c = sep then [] # split_str sep cs
      else (case split_str sep cs of
              [] \<Rightarrow> [[c]]
            | p # ps \<Rightarrow> (c # p) # ps))"

text \<open>Decimal digits of a natural number, and \<^verbatim>\<open>"%0wd" % n\<close> for \<open>n \<ge> 0\<close>.\<close>

fun dec :: "nat \<Rightarrow> string" where
  "dec n = (if n < 10 then [''0123456789'' ! n]
            else dec (n div 10) @ [''0123456789'' ! (n mod 10)])"

declare dec.simps [simp del]

definition zpad :: "nat \<Rightarrow> nat \<Rightarrow> string" where
  "zpad w n = replicate (w - length (dec n)) (CHR ''0'') @ dec n"


text \<open>
  \<^verbatim>\<open>urllib.parse.quote(s, safe=...)\<close>: each byte of the UTF-8 encoding that is neither
  an unreserved character nor in \<open>safe\<close> becomes \<^verbatim>\<open>%XX\<close>, in upper-case hexadecimal.
\<close>

definition always_safe :: string where
  "always_safe = ''ABCDEFGHIJKLMNOPQRSTUVWXYZabcdefghijklmnopqrstuvwxyz0123456789_.-~''"

definition hex_digit :: "nat \<Rightarrow> char" where
  "hex_digit n = ''0123456789ABCDEF'' ! n"

definition quote_byte :: "string \<Rightarrow> char \<Rightarrow> string" where
  "quote_byte safe c =
     (if c \<in> set (always_safe @ safe) then [c]
      else [CHR ''%'', hex_digit (of_char c div 16), hex_digit (of_char c mod 16)])"

definition quote :: "string \<Rightarrow> string \<Rightarrow> string" where
  "quote s safe = concat (map (quote_byte safe) s)"

text \<open>The number of positions of \<open>s\<close> at which \<open>p\<close> occurs.\<close>

fun occurrences :: "string \<Rightarrow> string \<Rightarrow> nat" where
  "occurrences p [] = (if p = [] then 1 else 0)"
| "occurrences p (c # cs) = (if prefix p (c # cs) then 1 else 0) + occurrences p cs"

section \<open>Time grains\<close>

text \<open>
  The class attribute \<^verbatim>\<open>_time_grain_expressions\<close>, in the order of the source; the key
  \<open>None\<close> is Python's \<^verbatim>\<open>None\<close>.
\<close>

definition time_grain_expressions :: "(string option \<times> string) list" where
  "time_grain_expressions =
     [(None, ''{col}''),
      (Some ''PT1S'', ''date_trunc('second', CAST({col} AS TIMESTAMP))''),
      (Some ''PT1M'', ''date_trunc('minute', CAST({col} AS TIMESTAMP))''),
      (Some ''PT1H'', ''date_trunc('hour', CAST({col} AS TIMESTAMP))''),
      (Some ''P1D'', ''date_trunc('day', CAST({col} AS TIMESTAMP))''),
      (Some ''P1W'', ''date_trunc('week', CAST({col} AS TIMESTAMP))''),
      (Some ''P1M'', ''date_trunc('month', CAST({col} AS TIMESTAMP))''),
      (Some ''P3M'', ''date_trunc('quarter', CAST({col} AS TIMESTAMP))''),
      (Some ''P1Y'', ''date_trunc('year', CAST({col} AS TIMESTAMP))'')]"

section \<open>Datetime literals\<close>

text \<open>
  A \<^verbatim>\<open>datetime.datetime\<close>: its fields and the value of \<^verbatim>\<open>utcoffset()\<close> in microseconds,
  \<open>None\<close> for a time zone naive value.
\<close>

record datetime =
  year :: nat
  month :: nat
  day :: nat
  hour :: nat
  minute :: nat
  second :: nat
  microsecond :: nat
  utcoffset :: "int option"

text \<open>\<^verbatim>\<open>dttm.date().isoformat()\<close>.\<close>

definition date_isoformat :: "datetime \<Rightarrow> string" where
  "date_isoformat d = zpad 4 (year d) @ ''-'' @ zpad 2 (month d) @ ''-'' @ zpad 2 (day d)"

text \<open>The time of day with \<^verbatim>\<open>timespec="microseconds"\<close>.\<close>

definition format_time :: "datetime \<Rightarrow> string" where
  "format_time d =
     zpad 2 (hour d) @ '':'' @ zpad 2 (minute d) @ '':'' @ zpad 2 (second d) @ ''.''
       @ zpad 6 (microsecond d)"

text \<open>
  The UTC offset as \<^verbatim>\<open>isoformat\<close> appends it: nothing for a naive value, otherwise a
  sign, hours and minutes, and seconds and microseconds when they are not zero.
\<close>

definition format_offset :: "int option \<Rightarrow> string" where
  "format_offset off =
     (case off of
        None \<Rightarrow> []
      | Some t \<Rightarrow>
          (let sign = (if t < 0 then ''-'' else ''+'');
               a = nat \<bar>t\<bar>;
               hh = a div 3600000000;
               r = a mod 3600000000;
               mm = r div 60000000;
               ss = r mod 60000000
           in sign @ zpad 2 hh @ '':'' @ zpad 2 mm @
              (if ss \<noteq> 0
               then '':'' @ zpad 2 (ss div 1000000) @
                    (if ss mod 1000000 \<noteq> 0 then ''.'' @ zpad 6 (ss mod 1000000) else [])
               else [])))"

text \<open>\<^verbatim>\<open>dttm.isoformat(timespec="microseconds", sep=sep)\<close>.\<close>

definition datetime_isoformat :: "char \<Rightarrow> datetime \<Rightarrow> string" where
  "datetime_isoformat sep d =
     date_isoformat d @ [sep] @ format_time d @ format_offset (utcoffset d)"

text \<open>
  Modelled from the spec: the members of \<^verbatim>\<open>superset.utils.core.TemporalType\<close> that
  \<^verbatim>\<open>convert_dttm\<close> compares with; section 4.2 of the specification gives their values.
\<close>

definition TemporalType_DATE :: string where
  "TemporalType_DATE = ''DATE''"

definition TemporalType_TIMESTAMP :: string where
  "TemporalType_TIMESTAMP = ''TIMESTAMP''"

definition TemporalType_TIMESTAMP_WITH_TIME_ZONE :: string where
  "TemporalType_TIMESTAMP_WITH_TIME_ZONE = ''TIMESTAMP WITH TIME ZONE''"

text \<open>
  \<^verbatim>\<open>TrinoEngineSpec.convert_dttm\<close>; the result \<open>None\<close> is Python's \<^verbatim>\<open>None\<close>. The
  argument \<^verbatim>\<open>db_extra\<close> is never read and is left out; the first argument is the
  parameter of \<open>upper\<close>.
\<close>

definition convert_dttm :: "(string \<Rightarrow> string) \<Rightarrow> string \<Rightarrow> datetime \<Rightarrow> string option" where
  "convert_dttm unicode_upper target_type dttm =
     (let tt = upper unicode_upper target_type in
      if tt = TemporalType_DATE
      then Some (''DATE '' @ [CHR 0x27] @ date_isoformat dttm @ [CHR 0x27])
      else if tt \<in> set [TemporalType_TIMESTAMP, TemporalType_TIMESTAMP_WITH_TIME_ZONE]
      then Some (''TIMESTAMP '' @ [CHR 0x27] @ datetime_isoformat (CHR '' '') dttm @ [CHR 0x27])
      else None)"

section \<open>Connection address\<close>

text \<open>
  The components of a SQLAlchemy \<^verbatim>\<open>URL\<close> that the adapter reads or writes; credentials,
  host, port and query are never touched.
\<close>

record url =
  drivername :: string
  database :: "string option"

text \<open>\<^verbatim>\<open>TrinoEngineSpec.adjust_database_uri\<close>: the URL after the call.\<close>

definition adjust_database_uri :: "url \<Rightarrow> string option \<Rightarrow> url" where
  "adjust_database_uri uri selected_schema =
     (if truthy_str selected_schema \<and> truthy_str (database uri)
      then uri\<lparr>database :=
             Some (split_str (CHR ''/'') (the (database uri)) ! 0 @ ''/''
                   @ quote (the selected_schema) [])\<rparr>
      else uri)"


section \<open>External collaborators\<close>




section \<open>Impersonation\<close>


section \<open>Connection parameters\<close>










section \<open>Observations and concrete inputs\<close>

text \<open>
  The shape of a string: every decimal digit is replaced by the letter \<open>d\<close>, every other
  character is kept.
\<close>

definition digit_shape :: "string \<Rightarrow> string" where
  "digit_shape s = map (\<lambda>c. if c \<in> set ''0123456789'' then CHR ''d'' else c) s"

text \<open>
  The ranges that \<^verbatim>\<open>datetime.datetime\<close> guarantees for its fields, and for the UTC
  offset (less than one day in either direction).
\<close>

definition datetime_ok :: "datetime \<Rightarrow> bool" where
  "datetime_ok d \<longleftrightarrow>
     1 \<le> year d \<and> year d \<le> 9999 \<and> 1 \<le> month d \<and> month d \<le> 12 \<and>
     1 \<le> day d \<and> day d \<le> 31 \<and> hour d < 24 \<and> minute d < 60 \<and> second d < 60 \<and>
     microsecond d < 1000000 \<and>
     (case utcoffset d of None \<Rightarrow> True | Some t \<Rightarrow> \<bar>t\<bar> < 86400000000)"




text \<open>
  The target type \<^verbatim>\<open>timestamp\<close> written with a dotless i (U+0131, the bytes C4 B1), and
  a case mapping that knows this one string and treats every other string bytewise.
\<close>

definition dotless_timestamp :: string where
  "dotless_timestamp = ''t'' @ [CHR 0xC4, CHR 0xB1] @ ''mestamp''"

definition demo_unicode_upper :: "string \<Rightarrow> string" where
  "demo_unicode_upper s = (if s = dotless_timestamp then ''TIMESTAMP'' else map upper_char s)"

definition aware_datetime :: datetime where
  "aware_datetime =
     \<lparr>year = 2022, month = 1, day = 1, hour = 1, minute = 23, second = 45,
      microsecond = 600000, utcoffset = Some 0\<rparr>"

definition naive_datetime :: datetime where
  "naive_datetime =
     \<lparr>year = 2022, month = 1, day = 1, hour = 1, minute = 23, second = 45,
      microsecond = 600000, utcoffset = None\<rparr>"

section \<open>Facts about the string functions\<close>

lemma upper_char_idem: "upper_char (upper_char c) = upper_char c"
  by (simp add: upper_char_def)

lemma upper_char_ascii: "\<not> digit7 c \<Longrightarrow> \<not> digit7 (upper_char c)"
  by (auto simp add: upper_char_def)

lemma is_ascii_upper: "is_ascii s \<Longrightarrow> is_ascii (map upper_char s)"
  by (induction s) (simp_all add: is_ascii_def upper_char_ascii)

lemma upper_idem_ascii: "is_ascii s \<Longrightarrow> upper up (upper up s) = upper up s"
  by (simp add: upper_def is_ascii_upper upper_char_idem)

lemma upper_constants:
  "upper up ''DATE'' = ''DATE''"
  "upper up ''TIMESTAMP'' = ''TIMESTAMP''"
  "upper up ''TIMESTAMP WITH TIME ZONE'' = ''TIMESTAMP WITH TIME ZONE''"
  "upper up ''date'' = ''DATE''"
  "upper up ''Timestamp'' = ''TIMESTAMP''"
  by (simp_all add: upper_def is_ascii_def upper_char_def)

lemma split_str_nonempty: "split_str sep s \<noteq> []"
  by (induction s) (auto split: list.splits)

lemma split_str_first: "split_str sep s ! 0 = takeWhile (\<lambda>c. c \<noteq> sep) s"
  by (induction s) (auto simp add: split_str_nonempty split: list.splits)

lemma hex_digit_safe: "n < 16 \<Longrightarrow> hex_digit n \<in> set always_safe"
proof -
  assume "n < 16"
  then have "hex_digit n \<in> set ''0123456789ABCDEF''"
    unfolding hex_digit_def by (intro nth_mem) simp
  then show ?thesis
    by (auto simp add: always_safe_def)
qed

lemma of_char_div_16: "(of_char c :: nat) div 16 < 16"
proof -
  have "(of_char c :: nat) < 256" by simp
  then show ?thesis by arith
qed

lemma quote_byte_chars: "set (quote_byte [] c) \<subseteq> insert (CHR ''%'') (set always_safe)"
  by (simp add: quote_byte_def hex_digit_safe of_char_div_16)

lemma quote_chars: "set (quote s []) \<subseteq> insert (CHR ''%'') (set always_safe)"
  using quote_byte_chars by (fastforce simp add: quote_def)

lemma slash_not_safe: "CHR ''/'' \<notin> insert (CHR ''%'') (set always_safe)"
  by (simp add: always_safe_def)

lemma quote_no_slash: "CHR ''/'' \<notin> set (quote s [])"
  using quote_chars [of s] slash_not_safe by blast

lemma quote_a_slash_b: "quote ''a/b'' [] = ''a%2Fb''"
  by (simp add: quote_def quote_byte_def always_safe_def hex_digit_def)

section \<open>Time grain catalogue\<close>

text \<open>
  C7: each of the eight time grains \<^verbatim>\<open>PT1S\<close>, \<^verbatim>\<open>PT1M\<close>, \<^verbatim>\<open>PT1H\<close>, \<^verbatim>\<open>P1D\<close>, \<^verbatim>\<open>P1W\<close>,
  \<^verbatim>\<open>P1M\<close>, \<^verbatim>\<open>P3M\<close>, \<^verbatim>\<open>P1Y\<close> has a template in which the placeholder \<^verbatim>\<open>{col}\<close> occurs
  exactly once, the key \<^verbatim>\<open>None\<close> has the identity template \<^verbatim>\<open>{col}\<close>, and the catalogue
  has no other key.
\<close>

theorem time_grain_templates:
  "(\<forall>g \<in> set [''PT1S'', ''PT1M'', ''PT1H'', ''P1D'', ''P1W'', ''P1M'', ''P3M'', ''P1Y''].
      \<exists>t. map_of time_grain_expressions (Some g) = Some t \<and> occurrences ''{col}'' t = 1)
   \<and> map_of time_grain_expressions None = Some ''{col}''
   \<and> map fst time_grain_expressions =
       None # map Some [''PT1S'', ''PT1M'', ''PT1H'', ''P1D'', ''P1W'', ''P1M'', ''P3M'', ''P1Y'']"
  by (simp add: time_grain_expressions_def)

theorem time_grain_templates_witness:
  "''P1W'' \<in> set [''PT1S'', ''PT1M'', ''PT1H'', ''P1D'', ''P1W'', ''P1M'', ''P3M'', ''P1Y'']
   \<and> (\<exists>t. map_of time_grain_expressions (Some ''P1W'') = Some t \<and> occurrences ''{col}'' t = 1)"
proof -
  have "''P1W'' \<in> set [''PT1S'', ''PT1M'', ''PT1H'', ''P1D'', ''P1W'', ''P1M'', ''P3M'', ''P1Y'']"
    by simp
  with time_grain_templates show ?thesis
    by blast
qed

section \<open>Schema selection in the connection address\<close>

text \<open>
  C5: when the URL has a non-empty database and the selected schema is non-empty,
  \<^verbatim>\<open>adjust_database_uri\<close> sets the database to the text before the first \<^verbatim>\<open>/\<close> of the old
  value, a \<^verbatim>\<open>/\<close>, and the schema percent-encoded with an empty safe set. The encoded schema
  consists of unreserved characters and \<^verbatim>\<open>%\<close> only, so it holds no \<^verbatim>\<open>/\<close>; the schema
  \<^verbatim>\<open>a/b\<close> becomes the one segment \<^verbatim>\<open>a%2Fb\<close>. The driver name is not changed.
\<close>

theorem adjust_database_uri_rewrites:
  assumes "database uri = Some db" and "db \<noteq> []" and "sch \<noteq> []"
  shows "database (adjust_database_uri uri (Some sch)) =
           Some (takeWhile (\<lambda>c. c \<noteq> CHR ''/'') db @ ''/'' @ quote sch [])
         \<and> drivername (adjust_database_uri uri (Some sch)) = drivername uri
         \<and> CHR ''/'' \<notin> set (quote sch [])
         \<and> set (quote sch []) \<subseteq> insert (CHR ''%'') (set always_safe)
         \<and> database (adjust_database_uri uri (Some ''a/b'')) =
             Some (takeWhile (\<lambda>c. c \<noteq> CHR ''/'') db @ ''/a%2Fb'')"
  using assms
  by (simp add: adjust_database_uri_def split_str_first quote_no_slash quote_chars
      quote_a_slash_b)

theorem adjust_database_uri_rewrites_witness:
  "database (adjust_database_uri \<lparr>drivername = ''trino'', database = Some ''hive/default''\<rparr>
      (Some ''my schema'')) = Some ''hive/my%20schema''
   \<and> database (adjust_database_uri \<lparr>drivername = ''trino'', database = Some ''hive/default''\<rparr>
      (Some ''a/b'')) = Some ''hive/a%2Fb''"
  using adjust_database_uri_rewrites
    [of "\<lparr>drivername = ''trino'', database = Some ''hive/default''\<rparr>" "''hive/default''"
        "''my schema''"]
  by (simp add: quote_def quote_byte_def always_safe_def hex_digit_def)

text \<open>
  C6: \<^verbatim>\<open>adjust_database_uri\<close> is idempotent. Applying it twice with the same schema gives
  the URL, and so the database, that applying it once gives; this holds for every URL and
  every schema, also where the call changes nothing.
\<close>

theorem adjust_database_uri_idempotent:
  "adjust_database_uri (adjust_database_uri uri sch) sch = adjust_database_uri uri sch"
  by (cases sch; cases "database uri")
    (simp_all add: adjust_database_uri_def split_str_first takeWhile_tail)

section \<open>Datetime literals\<close>

text \<open>
  C10: \<^verbatim>\<open>convert_dttm\<close> reads its target type through \<^verbatim>\<open>upper()\<close> only. For every
  ASCII string \<open>s\<close>, whatever Unicode does elsewhere, \<open>s\<close> and its upper-case form give the
  same result; for a string with characters outside ASCII they do as soon as upper-casing
  the upper-case form changes nothing, which Python's \<^verbatim>\<open>str.upper\<close> ensures. The
  spellings \<^verbatim>\<open>date\<close> and \<^verbatim>\<open>Timestamp\<close> are accepted like \<^verbatim>\<open>DATE\<close> and \<^verbatim>\<open>TIMESTAMP\<close>.
\<close>

theorem convert_dttm_case_insensitive:
  "(is_ascii s \<or> upper up (upper up s) = upper up s \<longrightarrow>
      convert_dttm up s d = convert_dttm up (upper up s) d)
   \<and> convert_dttm up ''date'' d = convert_dttm up ''DATE'' d
   \<and> convert_dttm up ''Timestamp'' d = convert_dttm up ''TIMESTAMP'' d
   \<and> convert_dttm up ''date'' d \<noteq> None
   \<and> convert_dttm up ''Timestamp'' d \<noteq> None"
proof -
  have "convert_dttm up s d = convert_dttm up (upper up s) d"
    if "is_ascii s \<or> upper up (upper up s) = upper up s"
  proof -
    from that have "upper up (upper up s) = upper up s"
      using upper_idem_ascii by blast
    then show ?thesis
      by (simp add: convert_dttm_def)
  qed
  then show ?thesis
    by (simp add: convert_dttm_def upper_constants TemporalType_DATE_def
        TemporalType_TIMESTAMP_def TemporalType_TIMESTAMP_WITH_TIME_ZONE_def)
qed

text \<open>
  The two cases at work: the ASCII spelling \<^verbatim>\<open>timestamp\<close>, and the spelling with a dotless
  i, which a case mapping that sends it to \<^verbatim>\<open>TIMESTAMP\<close> makes a timestamp type too.
\<close>

theorem convert_dttm_case_insensitive_witness:
  "is_ascii ''timestamp''
   \<and> convert_dttm demo_unicode_upper ''timestamp'' naive_datetime =
       convert_dttm demo_unicode_upper (upper demo_unicode_upper ''timestamp'') naive_datetime
   \<and> upper demo_unicode_upper (upper demo_unicode_upper dotless_timestamp) =
       upper demo_unicode_upper dotless_timestamp
   \<and> upper demo_unicode_upper dotless_timestamp = ''TIMESTAMP''
   \<and> convert_dttm demo_unicode_upper dotless_timestamp naive_datetime =
       convert_dttm demo_unicode_upper ''TIMESTAMP'' naive_datetime"
proof -
  have a: "is_ascii ''timestamp''"
    by (simp add: is_ascii_def)
  have u: "upper demo_unicode_upper dotless_timestamp = ''TIMESTAMP''"
    by (simp add: upper_def is_ascii_def dotless_timestamp_def demo_unicode_upper_def)
  have i: "upper demo_unicode_upper (upper demo_unicode_upper dotless_timestamp) =
       upper demo_unicode_upper dotless_timestamp"
    by (simp add: u upper_constants)
  from convert_dttm_case_insensitive [of "''timestamp''" demo_unicode_upper naive_datetime] a
  have 1: "convert_dttm demo_unicode_upper ''timestamp'' naive_datetime =
       convert_dttm demo_unicode_upper (upper demo_unicode_upper ''timestamp'') naive_datetime"
    by blast
  from convert_dttm_case_insensitive [of dotless_timestamp demo_unicode_upper naive_datetime] i
  have "convert_dttm demo_unicode_upper dotless_timestamp naive_datetime =
       convert_dttm demo_unicode_upper (upper demo_unicode_upper dotless_timestamp)
         naive_datetime"
    by blast
  then have 2: "convert_dttm demo_unicode_upper dotless_timestamp naive_datetime =
       convert_dttm demo_unicode_upper ''TIMESTAMP'' naive_datetime"
    by (simp only: u)
  from a 1 i u 2 show ?thesis
    by (intro conjI)
qed

section \<open>Facts about number formatting\<close>

lemma digit_nth: "k < 10 \<Longrightarrow> ''0123456789'' ! k \<in> set ''0123456789''"
  by (intro nth_mem) simp

lemma dec_digits: "set (dec n) \<subseteq> set ''0123456789''"
proof (induction n rule: dec.induct)
  case (1 n)
  show ?case
  proof (cases "n < 10")
    case True
    then show ?thesis
      using digit_nth [of n] by (subst dec.simps) simp
  next
    case False
    have "n mod 10 < 10" by simp
    then have "''0123456789'' ! (n mod 10) \<in> set ''0123456789''"
      by (rule digit_nth)
    with False 1 show ?thesis
      by (subst dec.simps) simp
  qed
qed

lemma dec_length: "n < 10 ^ w \<Longrightarrow> 0 < w \<Longrightarrow> length (dec n) \<le> w"
proof (induction n arbitrary: w rule: dec.induct)
  case (1 n)
  show ?case
  proof (cases "n < 10")
    case True
    with 1 show ?thesis
      by (subst dec.simps) simp
  next
    case False
    obtain v where w: "w = Suc v"
      using 1(3) by (cases w) auto
    have "0 < v"
    proof (rule ccontr)
      assume "\<not> 0 < v"
      with w 1(2) False show False by simp
    qed
    moreover have "n div 10 < 10 ^ v"
      using 1(2) w by (simp add: less_mult_imp_div_less mult.commute)
    ultimately have "length (dec (n div 10)) \<le> v"
      using 1(1) False by blast
    with False w show ?thesis
      by (subst dec.simps) simp
  qed
qed

lemma map_const_replicate: "(\<forall>x \<in> set xs. f x = c) \<Longrightarrow> map f xs = replicate (length xs) c"
  by (induction xs) auto

lemma digit_shape_append: "digit_shape (a @ b) = digit_shape a @ digit_shape b"
  by (simp add: digit_shape_def)

lemma digit_shape_dec: "digit_shape (dec n) = replicate (length (dec n)) (CHR ''d'')"
proof -
  define S where "S = set ''0123456789''"
  have "\<forall>c \<in> set (dec n). (if c \<in> S then CHR ''d'' else c) = CHR ''d''"
  proof
    fix c
    assume "c \<in> set (dec n)"
    with dec_digits [of n] have "c \<in> S"
      unfolding S_def by (rule subsetD)
    then show "(if c \<in> S then CHR ''d'' else c) = CHR ''d''"
      by (simp only: if_True)
  qed
  then have "map (\<lambda>c. if c \<in> S then CHR ''d'' else c) (dec n)
      = replicate (length (dec n)) (CHR ''d'')"
    by (rule map_const_replicate)
  then show ?thesis
    by (simp only: digit_shape_def S_def)
qed

lemma digit_shape_zeros: "digit_shape (replicate k (CHR ''0'')) = replicate k (CHR ''d'')"
  by (simp add: digit_shape_def)

lemma digit_shape_zpad:
  assumes "n < 10 ^ w" and "0 < w"
  shows "digit_shape (zpad w n) = replicate w (CHR ''d'')"
proof -
  define k where "k = w - length (dec n)"
  have "length (dec n) \<le> w"
    using assms by (rule dec_length)
  then have kw: "k + length (dec n) = w"
    by (simp add: k_def)
  have "digit_shape (zpad w n) = digit_shape (replicate k (CHR ''0'')) @ digit_shape (dec n)"
    by (simp only: zpad_def digit_shape_append k_def)
  also have "\<dots> = replicate k (CHR ''d'') @ replicate (length (dec n)) (CHR ''d'')"
    by (simp only: digit_shape_dec digit_shape_zeros)
  also have "\<dots> = replicate (k + length (dec n)) (CHR ''d'')"
    by (simp only: replicate_add)
  finally show ?thesis
    by (simp only: kw)
qed

lemma replicate_2: "replicate 2 c = [c, c]"
  by (simp add: numeral_eq_Suc)

lemma replicate_4: "replicate 4 c = [c, c, c, c]"
  by (simp add: numeral_eq_Suc)

lemma replicate_6: "replicate 6 c = [c, c, c, c, c, c]"
  by (simp add: numeral_eq_Suc)

lemma shape2: "n < 100 \<Longrightarrow> digit_shape (zpad 2 n) = ''dd''"
  using digit_shape_zpad [of n 2] by (simp add: replicate_2)

lemma shape4: "n < 10000 \<Longrightarrow> digit_shape (zpad 4 n) = ''dddd''"
  using digit_shape_zpad [of n 4] by (simp add: replicate_4)

lemma shape6: "n < 1000000 \<Longrightarrow> digit_shape (zpad 6 n) = ''dddddd''"
  using digit_shape_zpad [of n 6] by (simp add: replicate_6)

lemma digit_shape_Cons:
  "digit_shape (c # s) = (if c \<in> set ''0123456789'' then CHR ''d'' else c) # digit_shape s"
  by (simp add: digit_shape_def)

lemma body_shape:
  assumes "datetime_ok d"
  shows "digit_shape (date_isoformat d @ '' '' @ format_time d) = ''dddd-dd-dd dd:dd:dd.dddddd''"
proof -
  from assms have "year d < 10000" "month d < 100" "day d < 100" "hour d < 100"
    "minute d < 100" "second d < 100" "microsecond d < 1000000"
    by (simp_all add: datetime_ok_def)
  then have "digit_shape (zpad 4 (year d)) = ''dddd''" "digit_shape (zpad 2 (month d)) = ''dd''"
    "digit_shape (zpad 2 (day d)) = ''dd''" "digit_shape (zpad 2 (hour d)) = ''dd''"
    "digit_shape (zpad 2 (minute d)) = ''dd''" "digit_shape (zpad 2 (second d)) = ''dd''"
    "digit_shape (zpad 6 (microsecond d)) = ''dddddd''"
    by (simp_all add: shape2 shape4 shape6)
  then show ?thesis
    by (simp add: date_isoformat_def format_time_def digit_shape_append digit_shape_Cons)
qed

lemma offset_shape:
  assumes "\<bar>t\<bar> < 86400000000"
  shows "\<exists>sign hh mm rest. format_offset (Some t) = sign # hh @ '':'' @ mm @ rest
           \<and> sign \<in> {CHR ''+'', CHR ''-''} \<and> digit_shape hh = ''dd'' \<and> digit_shape mm = ''dd''"
proof -
  define a where "a = nat \<bar>t\<bar>"
  define ss where "ss = a mod 3600000000 mod 60000000"
  define sign where "sign = (if t < 0 then CHR ''-'' else CHR ''+'')"
  define rest where "rest =
    (if ss \<noteq> 0
     then '':'' @ zpad 2 (ss div 1000000) @
          (if ss mod 1000000 \<noteq> 0 then ''.'' @ zpad 6 (ss mod 1000000) else [])
     else [])"
  have "a < 86400000000"
    using assms by (simp add: a_def)
  then have hh: "a div 3600000000 < 100"
    by arith
  have "a mod 3600000000 < 3600000000"
    by simp
  then have mm: "a mod 3600000000 div 60000000 < 100"
    by arith
  have fmt: "format_offset (Some t) =
      sign # zpad 2 (a div 3600000000) @ '':'' @ zpad 2 (a mod 3600000000 div 60000000) @ rest"
    by (simp add: format_offset_def Let_def a_def ss_def sign_def rest_def)
  have sign: "sign \<in> {CHR ''+'', CHR ''-''}"
    by (simp add: sign_def)
  from fmt sign shape2 [OF hh] shape2 [OF mm] show ?thesis
    by (intro exI [of _ sign] exI [of _ "zpad 2 (a div 3600000000)"]
        exI [of _ "zpad 2 (a mod 3600000000 div 60000000)"] exI [of _ rest] conjI)
qed

lemmas literal_eval = convert_dttm_def upper_constants TemporalType_DATE_def
  TemporalType_TIMESTAMP_def TemporalType_TIMESTAMP_WITH_TIME_ZONE_def datetime_isoformat_def
  date_isoformat_def format_offset_def format_time_def zpad_def dec.simps


section \<open>Timestamp literals\<close>

text \<open>
  C4, as the code has it: for the target types \<^verbatim>\<open>TIMESTAMP\<close> and
  \<^verbatim>\<open>TIMESTAMP WITH TIME ZONE\<close>, \<^verbatim>\<open>convert_dttm\<close> returns \<^verbatim>\<open>TIMESTAMP '...'\<close> around the ISO
  date and time with a space separator and six microsecond digits, followed by what
  \<^verbatim>\<open>isoformat\<close> appends for the UTC offset. For a time zone naive value that is nothing,
  so the literal has no zone suffix; for a time zone aware value it is a sign, two digits
  of hours, a colon and two digits of minutes (and seconds when the offset has any).
  The two target types are ASCII, so this holds whatever the Unicode case mappings are.
\<close>

theorem convert_dttm_timestamp_literal:
  assumes "tt = ''TIMESTAMP'' \<or> tt = ''TIMESTAMP WITH TIME ZONE''" and "datetime_ok d"
  shows "\<exists>body. convert_dttm up tt d =
             Some (''TIMESTAMP '' @ [CHR 0x27] @ body @ format_offset (utcoffset d) @ [CHR 0x27])
           \<and> digit_shape body = ''dddd-dd-dd dd:dd:dd.dddddd''
           \<and> (utcoffset d = None \<longrightarrow> format_offset (utcoffset d) = [])
           \<and> (utcoffset d \<noteq> None \<longrightarrow>
                (\<exists>sign hh mm rest. format_offset (utcoffset d) = sign # hh @ '':'' @ mm @ rest
                   \<and> sign \<in> {CHR ''+'', CHR ''-''} \<and> digit_shape hh = ''dd''
                   \<and> digit_shape mm = ''dd''))"
proof -
  have up: "upper up tt = tt"
    using assms(1) by (auto simp add: upper_constants)
  have conv: "convert_dttm up tt d =
      Some (''TIMESTAMP '' @ [CHR 0x27] @ (date_isoformat d @ '' '' @ format_time d)
            @ format_offset (utcoffset d) @ [CHR 0x27])"
    using assms(1) up
    by (auto simp add: convert_dttm_def TemporalType_DATE_def TemporalType_TIMESTAMP_def
        TemporalType_TIMESTAMP_WITH_TIME_ZONE_def datetime_isoformat_def)
  have naive: "utcoffset d = None \<longrightarrow> format_offset (utcoffset d) = []"
    by (simp add: format_offset_def)
  have aware: "utcoffset d \<noteq> None \<longrightarrow>
      (\<exists>sign hh mm rest. format_offset (utcoffset d) = sign # hh @ '':'' @ mm @ rest
         \<and> sign \<in> {CHR ''+'', CHR ''-''} \<and> digit_shape hh = ''dd'' \<and> digit_shape mm = ''dd'')"
  proof
    assume "utcoffset d \<noteq> None"
    then obtain t where t: "utcoffset d = Some t" by auto
    with assms(2) have "\<bar>t\<bar> < 86400000000" by (simp add: datetime_ok_def)
    then show "\<exists>sign hh mm rest. format_offset (utcoffset d) = sign # hh @ '':'' @ mm @ rest
         \<and> sign \<in> {CHR ''+'', CHR ''-''} \<and> digit_shape hh = ''dd'' \<and> digit_shape mm = ''dd''"
      unfolding t by (rule offset_shape)
  qed
  from conv body_shape [OF assms(2)] naive aware show ?thesis
    by (intro exI [of _ "date_isoformat d @ '' '' @ format_time d"] conjI)
qed

theorem convert_dttm_timestamp_literal_witness:
  "datetime_ok naive_datetime
   \<and> convert_dttm demo_unicode_upper ''TIMESTAMP'' naive_datetime =
       Some (''TIMESTAMP '' @ [CHR 0x27] @ ''2022-01-01 01:23:45.600000'' @ [CHR 0x27])
   \<and> (\<exists>body. convert_dttm demo_unicode_upper ''TIMESTAMP'' naive_datetime =
          Some (''TIMESTAMP '' @ [CHR 0x27] @ body @ format_offset (utcoffset naive_datetime)
                @ [CHR 0x27])
        \<and> digit_shape body = ''dddd-dd-dd dd:dd:dd.dddddd'')"
proof -
  have ok: "datetime_ok naive_datetime"
    by (simp add: datetime_ok_def naive_datetime_def)
  have val: "convert_dttm demo_unicode_upper ''TIMESTAMP'' naive_datetime =
       Some (''TIMESTAMP '' @ [CHR 0x27] @ ''2022-01-01 01:23:45.600000'' @ [CHR 0x27])"
    by (simp add: naive_datetime_def literal_eval)
  from convert_dttm_timestamp_literal [of "''TIMESTAMP''" naive_datetime demo_unicode_upper] ok
  have "\<exists>body. convert_dttm demo_unicode_upper ''TIMESTAMP'' naive_datetime =
          Some (''TIMESTAMP '' @ [CHR 0x27] @ body @ format_offset (utcoffset naive_datetime)
                @ [CHR 0x27])
        \<and> digit_shape body = ''dddd-dd-dd dd:dd:dd.dddddd''"
    by blast
  with ok val show ?thesis by blast
qed


text \<open>
  A time zone aware value at UTC: the literal for \<^verbatim>\<open>TIMESTAMP WITH TIME ZONE\<close> ends in the
  zone suffix \<^verbatim>\<open>+00:00\<close>.
\<close>

theorem aware_timestamp_has_offset_suffix:
  "datetime_ok aware_datetime
   \<and> convert_dttm demo_unicode_upper ''TIMESTAMP WITH TIME ZONE'' aware_datetime =
       Some (''TIMESTAMP '' @ [CHR 0x27] @ ''2022-01-01 01:23:45.600000+00:00'' @ [CHR 0x27])"
  by (simp add: aware_datetime_def datetime_ok_def literal_eval)

section \<open>Facts about the authentication dispatch\<close>





section \<open>Failures of the connection parameter builder\<close>






section \<open>The security error is raised after a mutation\<close>






section \<open>Impersonation\<close>




section \<open>A database without certificate and without encrypted extra\<close>









end
